theory Spec2Isabelle
  imports Main "HOL-Library.Word"
begin

section \<open>Python values, errors and the sedes capability\<close>

text \<open>
  Bytes are 8-bit words. A Python \<open>bytes\<close> object is a list of them.
\<close>

type_synonym byte = "8 word"

text \<open>
  The Python values of the model: \<open>None\<close>, booleans, unbounded integers,
  \<open>str\<close>, \<open>bytes\<close>, \<open>bytearray\<close>, lists, tuples and dictionaries (an association
  list in insertion order, which is the order Python iterates the keys in).
\<close>

datatype pyval =
    PyNone
  | PyBool bool
  | PyInt int
  | PyStr string
  | PyBytes "byte list"
  | PyByteArray "byte list"
  | PyList "pyval list"
  | PyTuple "pyval list"
  | PyDict "(pyval \<times> pyval) list"

text \<open>
  Exceptions are values: the exception class with its message. \<open>AttributeError\<close>,
  \<open>TypeError\<close> and \<open>OverflowError\<close> are the ones the interpreter raises itself
  (a method looked up on an object that lacks it, an unhashable dictionary key,
  \<open>int.to_bytes\<close> out of range).
\<close>

datatype error =
    ValueError string
  | SerializationError string
  | DeserializationError string
  | InvalidSedesError string
  | DecodingError string
  | AttributeError
  | TypeError
  | OverflowError

text \<open>
  A sedes is an object with the methods \<open>serialize\<close>, \<open>deserialize_segment\<close> and
  \<open>deserialize\<close>. Decoding runs a \<open>while\<close> loop whose progress depends on the element
  sedes, so a decoding call may not return: \<open>None\<close> is "does not return",
  \<open>Some (Inl e)\<close> is "raises e", \<open>Some (Inr r)\<close> is "returns r". Indices into the data
  are non-negative offsets.
\<close>

record sedes =
  serialize :: "pyval \<Rightarrow> error + byte list"
  deserialize_segment :: "byte list \<Rightarrow> nat \<Rightarrow> (error + pyval \<times> nat) option"
  deserialize :: "byte list \<Rightarrow> (error + pyval) option"

text \<open>
  An argument that is meant to be a sedes is, in Python, any object: a sedes object or
  an ordinary value (\<open>None\<close>, a type name, anything else).
\<close>

datatype pyobj = Val pyval | SedesObj sedes

text \<open>Python truthiness, as \<open>if x:\<close> and \<open>x and y\<close> test it.\<close>

fun truthy :: "pyval \<Rightarrow> bool" where
  "truthy PyNone = False"
| "truthy (PyBool b) = b"
| "truthy (PyInt i) = (i \<noteq> 0)"
| "truthy (PyStr s) = (s \<noteq> [])"
| "truthy (PyBytes bs) = (bs \<noteq> [])"
| "truthy (PyByteArray bs) = (bs \<noteq> [])"
| "truthy (PyList xs) = (xs \<noteq> [])"
| "truthy (PyTuple xs) = (xs \<noteq> [])"
| "truthy (PyDict kvs) = (kvs \<noteq> [])"

text \<open>
  A sedes object is an instance of a class that defines neither \<open>__bool__\<close> nor
  \<open>__len__\<close>: it is always truthy.
\<close>

fun truthy_obj :: "pyobj \<Rightarrow> bool" where
  "truthy_obj (Val v) = truthy v"
| "truthy_obj (SedesObj s) = True"

text \<open>
  A method call \<open>x.serialize(obj)\<close>, \<open>x.deserialize_segment(data, i)\<close> or
  \<open>x.deserialize(data)\<close> on an arbitrary object \<open>x\<close>: an AttributeError when \<open>x\<close> is
  no sedes object.
\<close>

fun call_serialize :: "pyobj \<Rightarrow> pyval \<Rightarrow> error + byte list" where
  "call_serialize (SedesObj s) obj = serialize s obj"
| "call_serialize (Val v) obj = Inl AttributeError"

fun call_deserialize_segment :: "pyobj \<Rightarrow> byte list \<Rightarrow> nat \<Rightarrow> (error + pyval \<times> nat) option" where
  "call_deserialize_segment (SedesObj s) data start_index = deserialize_segment s data start_index"
| "call_deserialize_segment (Val v) data start_index = Some (Inl AttributeError)"

fun call_deserialize :: "pyobj \<Rightarrow> byte list \<Rightarrow> (error + pyval) option" where
  "call_deserialize (SedesObj s) data = deserialize s data"
| "call_deserialize (Val v) data = Some (Inl AttributeError)"

text \<open>
  \<open>isinstance(val, Iterable) and not isinstance(val, (bytes, bytearray, str))\<close>:
  the elements in iteration order for a list, a tuple and a dictionary (its keys),
  \<open>None\<close> for every other value.
\<close>

fun iter_elems :: "pyval \<Rightarrow> pyval list option" where
  "iter_elems (PyList xs) = Some xs"
| "iter_elems (PyTuple xs) = Some xs"
| "iter_elems (PyDict kvs) = Some (map fst kvs)"
| "iter_elems v = None"

section \<open>Integers as big-endian byte strings\<close>

text \<open>\<open>n.to_bytes(L, 'big')\<close> for a non-negative n: OverflowError when n needs more than L bytes.\<close>

primrec be_bytes :: "nat \<Rightarrow> nat \<Rightarrow> byte list" where
  "be_bytes 0 n = []"
| "be_bytes (Suc k) n = be_bytes k (n div 256) @ [of_nat n]"

definition to_bytes_big :: "nat \<Rightarrow> nat \<Rightarrow> error + byte list" where
  "to_bytes_big n L = (if 256 ^ L \<le> n then Inl OverflowError else Inr (be_bytes L n))"

text \<open>\<open>int.from_bytes(bs, 'big')\<close>.\<close>

definition from_bytes_big :: "byte list \<Rightarrow> nat" where
  "from_bytes_big bs = foldl (\<lambda>acc b. acc * 256 + unat b) 0 bs"

text \<open>\<open>str(n)\<close> for a non-negative integer, as \<open>'{}'.format(n)\<close> prints it.\<close>

fun str_nat :: "nat \<Rightarrow> string" where
  "str_nat n =
     (if n < 10 then [''0123456789'' ! n]
      else str_nat (n div 10) @ [''0123456789'' ! (n mod 10)])"

section \<open>ssz.constants\<close>

text \<open>
  \<open>LIST_PREFIX_LENGTH\<close> is imported from \<open>ssz.constants\<close>; its value is a parameter
  \<open>L\<close> of every function below.
\<close>

text \<open>
  Modelled from the spec: \<open>MAX_LEN_SERIALIZED_LIST_OBJECT\<close> of \<open>ssz.constants\<close>,
  "2^(8 * LIST_PREFIX_LENGTH)".
\<close>

definition MAX_LEN_SERIALIZED_LIST_OBJECT :: "nat \<Rightarrow> nat" where
  "MAX_LEN_SERIALIZED_LIST_OBJECT L = 2 ^ (8 * L)"

section \<open>ssz/sedes/list.py\<close>

record List_sedes =
  element_sedes :: pyobj
  empty :: pyval

text \<open>\<open>List.__init__(self, element_sedes=None, empty=False)\<close>.\<close>

definition List_init :: "pyobj \<Rightarrow> pyval \<Rightarrow> error + List_sedes" where
  "List_init es em =
     (if truthy_obj es \<and> truthy em then
        Inl (ValueError ''Either one of Element Sedes or Empty has to be specified'')
      else if \<not> truthy_obj es \<and> \<not> truthy em then
        Inl (ValueError ''Either Element Sedes or Empty has to be specified'')
      else Inr \<lparr>element_sedes = es, empty = em\<rparr>)"

text \<open>
  \<open>b"".join(self.element_sedes.serialize(element) for element in val)\<close>: the elements
  are serialized from left to right, the first exception ends the join, and the
  attribute \<open>serialize\<close> is looked up once per element (never for an empty iterable).
\<close>

fun serialize_elements :: "pyobj \<Rightarrow> pyval list \<Rightarrow> error + byte list" where
  "serialize_elements es [] = Inr []"
| "serialize_elements es (x # xs) =
     (case call_serialize es x of
        Inl e \<Rightarrow> Inl e
      | Inr b \<Rightarrow>
          (case serialize_elements es xs of
             Inl e \<Rightarrow> Inl e
           | Inr bs \<Rightarrow> Inr (b @ bs)))"

definition List_serialize :: "nat \<Rightarrow> List_sedes \<Rightarrow> pyval \<Rightarrow> error + byte list" where
  "List_serialize L self val =
     (case iter_elems val of
        None \<Rightarrow> Inl (SerializationError ''Can only serialize Iterable objects, except Dictionaries'')
      | Some elems \<Rightarrow>
          if truthy (empty self) \<and> length elems \<noteq> 0 then
            Inl (ValueError ''Empty List Sedes cannot serialize non-empty Iterables'')
          else
            (case serialize_elements (element_sedes self) elems of
               Inl e \<Rightarrow> Inl e
             | Inr serialized_iterable_string \<Rightarrow>
                 if MAX_LEN_SERIALIZED_LIST_OBJECT L \<le> length serialized_iterable_string then
                   Inl (SerializationError
                     (''List too long to fit into '' @ str_nat L @ '' bytes after serialization''))
                 else
                   (case to_bytes_big (length serialized_iterable_string) L of
                      Inl e \<Rightarrow> Inl e
                    | Inr serialized_len \<Rightarrow> Inr (serialized_len @ serialized_iterable_string))))"

text \<open>
  The \<open>while element_start_index < list_end_index\<close> loop of \<open>deserialize_segment\<close>,
  with the list built so far as accumulator. It returns no index: the caller uses
  \<open>list_end_index\<close>, not the index the loop stopped at.
\<close>

partial_function (option) deserialize_elements ::
  "pyobj \<Rightarrow> byte list \<Rightarrow> nat \<Rightarrow> nat \<Rightarrow> pyval list \<Rightarrow> (error + pyval list) option" where
  "deserialize_elements es data element_start_index list_end_index deserialized_list =
     (if element_start_index < list_end_index then
        (case call_deserialize_segment es data element_start_index of
           None \<Rightarrow> None
         | Some (Inl e) \<Rightarrow> Some (Inl e)
         | Some (Inr (element, next_index)) \<Rightarrow>
             deserialize_elements es data next_index list_end_index
               (deserialized_list @ [element]))
      else Some (Inr deserialized_list))"

definition List_deserialize_segment ::
  "nat \<Rightarrow> List_sedes \<Rightarrow> byte list \<Rightarrow> nat \<Rightarrow> (error + pyval \<times> nat) option" where
  "List_deserialize_segment L self data start_index =
     (if length data < start_index + L then
        Some (Inl (DeserializationError ''Insufficient data: Cannot retrieve the length of list''))
      else
        let list_length = from_bytes_big (take L (drop start_index data));
            list_end_index = start_index + L + list_length
        in
          if length data < list_end_index then
            Some (Inl (DeserializationError ''Insufficient data: Cannot retrieve the whole list data''))
          else
            (case deserialize_elements (element_sedes self) data (start_index + L) list_end_index [] of
               None \<Rightarrow> None
             | Some (Inl e) \<Rightarrow> Some (Inl e)
             | Some (Inr deserialized_list) \<Rightarrow> Some (Inr (PyTuple deserialized_list, list_end_index))))"

definition List_deserialize :: "nat \<Rightarrow> List_sedes \<Rightarrow> byte list \<Rightarrow> (error + pyval) option" where
  "List_deserialize L self data =
     (case List_deserialize_segment L self data 0 of
        None \<Rightarrow> None
      | Some (Inl e) \<Rightarrow> Some (Inl e)
      | Some (Inr (deserialized_data, end_index)) \<Rightarrow>
          if end_index \<noteq> length data then
            Some (Inl (DeserializationError ''Data to be deserialized is too long''))
          else Some (Inr deserialized_data))"

text \<open>A List instance seen through the sedes capability, as element of another List or in the codec.\<close>

definition List_obj :: "nat \<Rightarrow> List_sedes \<Rightarrow> sedes" where
  "List_obj L self =
     \<lparr>serialize = List_serialize L self,
      deserialize_segment = List_deserialize_segment L self,
      deserialize = List_deserialize L self\<rparr>"

section \<open>Fixed-size scalar sedes\<close>

text \<open>
  The byte order of the unsigned integers is left open by the specification: it is a
  parameter of the sedes.
\<close>

datatype byteorder = Big | Little

definition int_to_bytes :: "byteorder \<Rightarrow> nat \<Rightarrow> nat \<Rightarrow> byte list" where
  "int_to_bytes bo N n = (case bo of Big \<Rightarrow> be_bytes N n | Little \<Rightarrow> rev (be_bytes N n))"

definition int_from_bytes :: "byteorder \<Rightarrow> byte list \<Rightarrow> nat" where
  "int_from_bytes bo bs = (case bo of Big \<Rightarrow> from_bytes_big bs | Little \<Rightarrow> from_bytes_big (rev bs))"

text \<open>
  Modelled from the spec: the fixed-size scalar sedes (\<open>ssz.sedes\<close>: \<open>boolean\<close>,
  \<open>uint32\<close>, ...), which are not among the source files. Section 4.1: \<open>serialize\<close>
  returns exactly N bytes or fails with a SerializationError;
  \<open>deserialize_segment(data, start)\<close> fails with a DeserializationError if fewer than
  N bytes remain from \<open>start\<close>, otherwise returns the decoded value and \<open>start + N\<close>;
  \<open>deserialize\<close> requires the segment to consume the entire input. The specification
  fixes the exception classes, not the messages.
\<close>

definition fixed_size_sedes ::
  "nat \<Rightarrow> (pyval \<Rightarrow> error + byte list) \<Rightarrow> (byte list \<Rightarrow> error + pyval) \<Rightarrow> sedes" where
  "fixed_size_sedes N enc dec =
     (let segment = (\<lambda>data start.
            if length data < start + N then Inl (DeserializationError ''Insufficient data'')
            else (case dec (take N (drop start data)) of
                    Inl e \<Rightarrow> Inl e
                  | Inr v \<Rightarrow> Inr (v, start + N)))
      in \<lparr>serialize = enc,
          deserialize_segment = (\<lambda>data start. Some (segment data start)),
          deserialize = (\<lambda>data.
            Some (case segment data 0 of
                    Inl e \<Rightarrow> Inl e
                  | Inr (v, end_index) \<Rightarrow>
                      if end_index \<noteq> length data
                      then Inl (DeserializationError ''Data to be deserialized is too long'')
                      else Inr v))\<rparr>)"

text \<open>
  Modelled from the spec: the unsigned integer of N bytes (\<open>uint32\<close> is \<open>uint 4\<close>);
  a negative or too large integer and a value that is not an integer are
  SerializationErrors.
\<close>

definition uint :: "byteorder \<Rightarrow> nat \<Rightarrow> sedes" where
  "uint bo N =
     fixed_size_sedes N
       (\<lambda>v. case v of
               PyInt n \<Rightarrow>
                 if 0 \<le> n \<and> n < 2 ^ (8 * N) then Inr (int_to_bytes bo N (nat n))
                 else Inl (SerializationError ''Integer out of range'')
             | _ \<Rightarrow> Inl (SerializationError ''Can only serialize integers''))
       (\<lambda>bs. Inr (PyInt (int (int_from_bytes bo bs))))"

abbreviation uint32 :: "byteorder \<Rightarrow> sedes" where
  "uint32 bo \<equiv> uint bo 4"

text \<open>
  Modelled from the spec: the \<open>Boolean\<close> sedes, a fixed-size scalar of one byte. The
  specification gives its width only; the byte values, 0x01 for \<open>True\<close> and 0x00 for
  \<open>False\<close>, are those of the SSZ format, and any other byte does not decode.
\<close>

definition Boolean :: sedes where
  "Boolean =
     fixed_size_sedes 1
       (\<lambda>v. case v of
               PyBool b \<Rightarrow> Inr [if b then 1 else 0]
             | _ \<Rightarrow> Inl (SerializationError ''Can only serialize boolean values''))
       (\<lambda>bs. if bs = [0] then Inr (PyBool False)
              else if bs = [1] then Inr (PyBool True)
              else Inl (DeserializationError ''Invalid boolean value''))"

section \<open>ssz/codec.py\<close>

text \<open>
  Modelled from the spec: \<open>is_sedes\<close> of \<open>ssz.utils\<close>, "validate it exposes the sedes
  capability (serialize + deserialize_segment)".
\<close>

fun is_sedes :: "pyobj \<Rightarrow> bool" where
  "is_sedes (SedesObj s) = True"
| "is_sedes (Val v) = False"

text \<open>
  \<open>sedes in sedes_by_name\<close> hashes its left operand: lists, dictionaries and
  bytearrays, and tuples that contain one, raise TypeError.
\<close>

fun hashable :: "pyval \<Rightarrow> bool" where
  "hashable (PyList xs) = False"
| "hashable (PyDict kvs) = False"
| "hashable (PyByteArray bs) = False"
| "hashable (PyTuple xs) = (\<forall>x \<in> set xs. hashable x)"
| "hashable v = True"

text \<open>
  The collaborators of \<open>encode\<close> that are not among the source files are parameters:
  the registry \<open>sedes_by_name\<close>, a dictionary from type names to sedes objects, and
  the type inference \<open>infer_sedes\<close>, which returns a sedes or raises.
\<close>

text \<open>
  \<open>sedes in sedes_by_name\<close> together with \<open>sedes_by_name[sedes]\<close>: TypeError for an
  unhashable operand, the registered sedes for a registered name, nothing for every
  other object (the keys are strings, and no other object equals a string).
\<close>

fun lookup_sedes :: "(string \<rightharpoonup> sedes) \<Rightarrow> pyobj \<Rightarrow> error + sedes option" where
  "lookup_sedes sedes_by_name (SedesObj s) = Inr None"
| "lookup_sedes sedes_by_name (Val v) =
     (if \<not> hashable v then Inl TypeError
      else (case v of PyStr name \<Rightarrow> Inr (sedes_by_name name) | _ \<Rightarrow> Inr None))"

definition encode ::
  "(string \<rightharpoonup> sedes) \<Rightarrow> (pyval \<Rightarrow> error + sedes) \<Rightarrow> pyval \<Rightarrow> pyobj \<Rightarrow> error + byte list" where
  "encode sedes_by_name infer_sedes obj sedes =
     (if truthy_obj sedes then
        (case lookup_sedes sedes_by_name sedes of
           Inl e \<Rightarrow> Inl e
         | Inr found \<Rightarrow>
             (let sedes_obj = (case found of Some s \<Rightarrow> SedesObj s | None \<Rightarrow> sedes)
              in if \<not> is_sedes sedes_obj then
                   Inl (InvalidSedesError ''Invalid sedes object'')
                 else call_serialize sedes_obj obj))
      else
        (case infer_sedes obj of
           Inl e \<Rightarrow> Inl e
         | Inr sedes_obj \<Rightarrow> call_serialize (SedesObj sedes_obj) obj))"

text \<open>\<open>type(ssz).__name__\<close>.\<close>

fun type_name :: "pyval \<Rightarrow> string" where
  "type_name PyNone = ''NoneType''"
| "type_name (PyBool b) = ''bool''"
| "type_name (PyInt i) = ''int''"
| "type_name (PyStr s) = ''str''"
| "type_name (PyBytes bs) = ''bytes''"
| "type_name (PyByteArray bs) = ''bytearray''"
| "type_name (PyList xs) = ''list''"
| "type_name (PyTuple xs) = ''tuple''"
| "type_name (PyDict kvs) = ''dict''"

text \<open>\<open>eth_utils.is_bytes\<close>: \<open>isinstance(value, (bytes, bytearray))\<close>; the bytes of such a value.\<close>

fun bytes_of :: "pyval \<Rightarrow> byte list option" where
  "bytes_of (PyBytes bs) = Some bs"
| "bytes_of (PyByteArray bs) = Some bs"
| "bytes_of v = None"

definition decode :: "pyval \<Rightarrow> pyobj \<Rightarrow> (error + pyval) option" where
  "decode ssz sedes =
     (case bytes_of ssz of
        None \<Rightarrow> Some (Inl (DecodingError (''Can only decode SSZ bytes, got type '' @ type_name ssz)))
      | Some data \<Rightarrow>
          call_deserialize sedes data)"

section \<open>The tree-hash engine\<close>

type_synonym chunk = "byte list"

definition zero_chunk :: chunk where
  "zero_chunk = replicate 32 0"

definition pad_chunk :: "byte list \<Rightarrow> chunk" where
  "pad_chunk bs = bs @ replicate (32 - length bs) 0"

text \<open>
  Modelled from the spec: the chunking of \<open>ssz.tree_hash\<close>, which is not among the
  source files. Section 4.4: "split into 32-byte chunks (pad the final chunk with zero
  bytes on the right if shorter than 32)".
\<close>

fun chunkify :: "byte list \<Rightarrow> chunk list" where
  "chunkify bs = (if bs = [] then [] else pad_chunk (take 32 bs) # chunkify (drop 32 bs))"

text \<open>
  Modelled from the spec: one level of the Merkle tree, "hashing sibling pairs (pad
  with an all-zero chunk if the chunk count is odd, so every level has an even width)",
  left then right. The hash of two chunks is a parameter \<open>h\<close>.
\<close>

fun hash_pairs :: "(chunk \<Rightarrow> chunk \<Rightarrow> chunk) \<Rightarrow> chunk list \<Rightarrow> chunk list" where
  "hash_pairs h (x # y # rest) = h x y # hash_pairs h rest"
| "hash_pairs h [x] = [h x zero_chunk]"
| "hash_pairs h [] = []"

text \<open>
  Modelled from the spec: "build the Merkle tree bottom-up ... until one root chunk
  remains; that chunk is the value's root", and "the Merkleization of zero leaves is a
  canonical all-zero root".
\<close>

function merkleize :: "(chunk \<Rightarrow> chunk \<Rightarrow> chunk) \<Rightarrow> chunk list \<Rightarrow> chunk" where
  "merkleize h [] = zero_chunk"
| "merkleize h [c] = c"
| "merkleize h (x # y # rest) = merkleize h (hash_pairs h (x # y # rest))"
  by pat_completeness auto
termination
proof (relation "measure (\<lambda>(h, cs). length cs)")
  show "wf (measure (\<lambda>(h :: chunk \<Rightarrow> chunk \<Rightarrow> chunk, cs :: chunk list). length cs))"
    by simp
next
  fix h :: "chunk \<Rightarrow> chunk \<Rightarrow> chunk" and x y :: chunk and rest :: "chunk list"
  have "length (hash_pairs h zs) \<le> length zs" for zs
    by (induction h zs rule: hash_pairs.induct) simp_all
  from this [of rest]
  show "((h, hash_pairs h (x # y # rest)), (h, x # y # rest)) \<in> measure (\<lambda>(h, cs). length cs)"
    by simp
qed

text \<open>The results of a list of calls, or the first exception among them.\<close>

fun sequence :: "(error + 'a) list \<Rightarrow> error + 'a list" where
  "sequence [] = Inr []"
| "sequence (r # rs) =
     (case r of
        Inl e \<Rightarrow> Inl e
      | Inr x \<Rightarrow> (case sequence rs of Inl e \<Rightarrow> Inl e | Inr xs \<Rightarrow> Inr (x # xs)))"

text \<open>
  For the tree hash a sedes is either a fixed-size scalar or a list of some sedes.
\<close>

datatype tree_sedes = Scalar sedes | ListOf tree_sedes

text \<open>
  Modelled from the spec: \<open>hash_tree_root\<close> of \<open>ssz.tree_hash.tree_hash\<close>, section
  4.4. A scalar is serialized, chunked and merkleized. For a list the roots of the
  elements are merkleized and the result is hashed with a 32-byte encoding of the
  element count; the specification leaves that encoding open, so it is a parameter
  \<open>encode_length\<close>. Errors of the sedes are propagated; a value that is no collection
  fails as it does in \<open>List.serialize\<close>.
\<close>

fun hash_tree_root ::
  "(chunk \<Rightarrow> chunk \<Rightarrow> chunk) \<Rightarrow> (nat \<Rightarrow> chunk) \<Rightarrow> pyval \<Rightarrow> tree_sedes \<Rightarrow> error + chunk" where
  "hash_tree_root h encode_length val (Scalar s) =
     (case serialize s val of
        Inl e \<Rightarrow> Inl e
      | Inr bs \<Rightarrow> Inr (merkleize h (chunkify bs)))"
| "hash_tree_root h encode_length val (ListOf es) =
     (case iter_elems val of
        None \<Rightarrow> Inl (SerializationError ''Can only serialize Iterable objects, except Dictionaries'')
      | Some elems \<Rightarrow>
          (case sequence (map (\<lambda>e. hash_tree_root h encode_length e es) elems) of
             Inl e \<Rightarrow> Inl e
           | Inr roots \<Rightarrow> Inr (h (merkleize h roots) (encode_length (length elems)))))"

section \<open>Round trips\<close>

text \<open>
  \<open>roundtrips s v d\<close>: the object \<open>s\<close> is a sedes that encodes the value \<open>v\<close> to a
  non-empty byte string and decodes that byte string, wherever it sits in the data, to
  \<open>d\<close> and the index just past it.
\<close>

definition roundtrips :: "pyobj \<Rightarrow> pyval \<Rightarrow> pyval \<Rightarrow> bool" where
  "roundtrips s v d \<longleftrightarrow>
     (\<exists>b. call_serialize s v = Inr b \<and> b \<noteq> [] \<and>
          (\<forall>pre post. call_deserialize_segment s (pre @ b @ post) (length pre) =
                        Some (Inr (d, length pre + length b))))"

section \<open>Properties of the byte strings\<close>

lemma length_be_bytes: "length (be_bytes L n) = L"
  by (induction L arbitrary: n) simp_all

lemma from_bytes_big_snoc: "from_bytes_big (bs @ [b]) = from_bytes_big bs * 256 + unat b"
  by (simp add: from_bytes_big_def)

lemma unat_byte_of_nat: "unat (of_nat n :: byte) = n mod 256"
  by (simp add: unat_of_nat)

lemma from_bytes_be_bytes: "n < 256 ^ L \<Longrightarrow> from_bytes_big (be_bytes L n) = n"
proof (induction L arbitrary: n)
  case 0
  then show ?case by (simp add: from_bytes_big_def)
next
  case (Suc L)
  from Suc.prems have "n div 256 < 256 ^ L"
    by (simp add: less_mult_imp_div_less mult.commute)
  then have "from_bytes_big (be_bytes L (n div 256)) = n div 256"
    by (rule Suc.IH)
  then show ?case
    by (simp add: from_bytes_big_snoc unat_byte_of_nat)
qed

lemma be_bytes_zero: "be_bytes L 0 = replicate L 0"
  by (induction L) (simp_all add: replicate_append_same)

lemma MAX_LEN_eq: "MAX_LEN_SERIALIZED_LIST_OBJECT L = 256 ^ L"
  by (simp add: MAX_LEN_SERIALIZED_LIST_OBJECT_def power_mult)

lemma List_serialize_Inr:
  assumes "List_serialize L self val = Inr bs"
  obtains elems s where
    "iter_elems val = Some elems"
    "\<not> (truthy (empty self) \<and> elems \<noteq> [])"
    "serialize_elements (element_sedes self) elems = Inr s"
    "length s < 256 ^ L"
    "bs = be_bytes L (length s) @ s"
  using assms
  by (auto simp: List_serialize_def MAX_LEN_eq to_bytes_big_def
           split: option.splits if_splits sum.splits)

lemma List_serialize_prefix:
  assumes "List_serialize L self val = Inr bs"
  shows "L \<le> length bs \<and> from_bytes_big (take L bs) = length (drop L bs) \<and>
         (\<exists>elems. iter_elems val = Some elems \<and>
                  serialize_elements (element_sedes self) elems = Inr (drop L bs))"
proof -
  from assms obtain elems s where
    h: "iter_elems val = Some elems"
       "serialize_elements (element_sedes self) elems = Inr s"
       "length s < 256 ^ L"
       "bs = be_bytes L (length s) @ s"
    by (rule List_serialize_Inr)
  then show ?thesis
    by (simp add: length_be_bytes from_bytes_be_bytes)
qed


section \<open>Properties of the list sedes\<close>

lemma deserialize_elements_stop:
  "\<not> i < e \<Longrightarrow> deserialize_elements es data i e acc = Some (Inr acc)"
  by (subst deserialize_elements.simps) simp

lemma deserialize_elements_step:
  "i < e \<Longrightarrow> call_deserialize_segment es data i = Some (Inr (x, j)) \<Longrightarrow>
   deserialize_elements es data i e acc = deserialize_elements es data j e (acc @ [x])"
  by (subst deserialize_elements.simps) simp

lemma deserialize_elements_roundtrip:
  assumes "list_all2 (roundtrips es) elems ds"
      and "serialize_elements es elems = Inr s"
  shows "deserialize_elements es (pre @ s @ post) (length pre)
           (length pre + length s) acc = Some (Inr (acc @ ds))"
  using assms
proof (induction elems ds arbitrary: s pre acc rule: list_all2_induct)
  case Nil
  then show ?case by (simp add: deserialize_elements_stop)
next
  case (Cons x xs d ds)
  from Cons.prems obtain b s' where
    b: "call_serialize es x = Inr b" and s': "serialize_elements es xs = Inr s'"
    and s: "s = b @ s'"
    by (auto split: sum.splits)
  from Cons.hyps(1) b have ne: "b \<noteq> []"
    and seg: "call_deserialize_segment es (pre @ b @ (s' @ post)) (length pre) =
              Some (Inr (d, length pre + length b))"
    by (auto simp: roundtrips_def)
  have "deserialize_elements es (pre @ s @ post) (length pre) (length pre + length s) acc =
        deserialize_elements es ((pre @ b) @ s' @ post) (length (pre @ b))
          (length (pre @ b) + length s') (acc @ [d])"
    using ne seg by (simp add: s deserialize_elements_step add.assoc)
  also have "\<dots> = Some (Inr ((acc @ [d]) @ ds))"
    by (rule Cons.IH [OF s'])
  finally show ?case by simp
qed

lemma List_segment_roundtrip:
  assumes it: "iter_elems v = Some elems"
      and rt: "list_all2 (roundtrips (element_sedes self)) elems ds"
      and ser: "List_serialize L self v = Inr bs"
  shows "List_deserialize_segment L self (pre @ bs @ post) (length pre) =
         Some (Inr (PyTuple ds, length pre + length bs))"
proof -
  from ser it obtain s where
    s: "serialize_elements (element_sedes self) elems = Inr s" and
    len: "length s < 256 ^ L" and
    bs: "bs = be_bytes L (length s) @ s"
    by (auto elim!: List_serialize_Inr)
  have pfx: "from_bytes_big (take L (drop (length pre) (pre @ bs @ post))) = length s"
    using len by (simp add: bs length_be_bytes from_bytes_be_bytes)
  have loop: "deserialize_elements (element_sedes self)
                ((pre @ be_bytes L (length s)) @ s @ post)
                (length (pre @ be_bytes L (length s)))
                (length (pre @ be_bytes L (length s)) + length s) [] = Some (Inr ([] @ ds))"
    by (rule deserialize_elements_roundtrip [OF rt s])
  show ?thesis
    unfolding List_deserialize_segment_def Let_def pfx
    using loop by (simp add: bs length_be_bytes add.assoc)
qed

lemma List_roundtrips:
  assumes "0 < L" "iter_elems v = Some elems"
    "list_all2 (roundtrips (element_sedes self)) elems ds" "List_serialize L self v = Inr bs"
  shows "roundtrips (SedesObj (List_obj L self)) v (PyTuple ds)"
proof -
  have "bs \<noteq> []"
    using List_serialize_prefix [OF assms(4)] assms(1) by auto
  then show ?thesis
    unfolding roundtrips_def
    using assms(4) List_segment_roundtrip [OF assms(2-4)]
    by (auto simp: List_obj_def)
qed

lemma List_deserialize_roundtrip:
  assumes it: "iter_elems v = Some elems"
      and rt: "list_all2 (roundtrips (element_sedes self)) elems ds"
      and ser: "List_serialize L self v = Inr bs"
  shows "List_deserialize L self bs = Some (Inr (PyTuple ds))"
  using List_segment_roundtrip [OF assms, of "[]" "[]"]
  by (simp add: List_deserialize_def)

lemma List_deserialize_trailing:
  assumes it: "iter_elems v = Some elems"
      and rt: "list_all2 (roundtrips (element_sedes self)) elems ds"
      and ser: "List_serialize L self v = Inr bs"
      and "extra \<noteq> []"
  shows "List_deserialize L self (bs @ extra) =
         Some (Inl (DeserializationError ''Data to be deserialized is too long''))"
  using List_segment_roundtrip [OF it rt ser, of "[]" extra] \<open>extra \<noteq> []\<close>
  by (simp add: List_deserialize_def)

lemma be_bytes_numeral:
  "be_bytes (numeral k) n = be_bytes (pred_numeral k) (n div 256) @ [of_nat n]"
  unfolding numeral_eq_Suc [of k] by simp

lemma decode_List:
  "decode (PyBytes data) (SedesObj (List_obj L self)) = List_deserialize L self data"
  by (simp add: decode_def List_obj_def)

lemma List_deserialize_proper_prefix:
  assumes ser: "List_serialize L self val = Inr bs" and k: "k < length bs"
  shows "\<exists>msg. List_deserialize L other (take k bs) = Some (Inl (DeserializationError msg))"
proof -
  from ser obtain s where len: "length s < 256 ^ L" and bs: "bs = be_bytes L (length s) @ s"
    by (rule List_serialize_Inr)
  show ?thesis
  proof (cases "k < L")
    case True
    then show ?thesis
      using k by (simp add: List_deserialize_def List_deserialize_segment_def)
  next
    case False
    then have "take L (take k bs) = be_bytes L (length s)"
      by (simp add: bs length_be_bytes)
    then have "from_bytes_big (take L (take k bs)) = length s"
      using len by (simp add: from_bytes_be_bytes)
    moreover have "k < L + length s"
      using k by (simp add: bs length_be_bytes)
    ultimately show ?thesis
      using False k by (simp add: List_deserialize_def List_deserialize_segment_def)
  qed
qed

lemma List_deserialize_trailing_no_value:
  assumes ser: "List_serialize L self val = Inr bs" and extra: "extra \<noteq> []"
  shows "List_deserialize L self (bs @ extra) \<noteq> Some (Inr r)"
proof -
  from ser obtain s where len: "length s < 256 ^ L" and bs: "bs = be_bytes L (length s) @ s"
    by (rule List_serialize_Inr)
  have pfx: "from_bytes_big (take L (drop 0 (bs @ extra))) = length s"
    using len by (simp add: bs length_be_bytes from_bytes_be_bytes)
  show ?thesis
    unfolding List_deserialize_def List_deserialize_segment_def Let_def pfx
    using extra
    by (simp add: bs length_be_bytes split: option.splits sum.splits)
qed

text \<open>
  The loop of \<open>deserialize_segment\<close> stops as soon as the index is no longer below
  \<open>list_end_index\<close>, and the index it stopped at is dropped: an element that ends past
  the end of the list is accepted.
\<close>

lemma List_deserialize_segment_accepts_overshoot:
  assumes "start_index + L + from_bytes_big (take L (drop start_index data)) = list_end_index"
      and "list_end_index \<le> length data"
      and "start_index + L < list_end_index"
      and "call_deserialize_segment (element_sedes self) data (start_index + L) =
             Some (Inr (element, next_index))"
      and "list_end_index < next_index"
  shows "List_deserialize_segment L self data start_index =
           Some (Inr (PyTuple [element], list_end_index))"
proof -
  have "deserialize_elements (element_sedes self) data (start_index + L) list_end_index [] =
        Some (Inr [element])"
    using assms(3-5)
    by (simp add: deserialize_elements_step deserialize_elements_stop)
  then show ?thesis
    using assms(1-3) by (auto simp: List_deserialize_segment_def Let_def)
qed

section \<open>Properties of the scalar sedes and of the codec\<close>

lemma int_from_to_bytes:
  "n < 256 ^ N \<Longrightarrow> int_from_bytes bo (int_to_bytes bo N n) = n"
  by (cases bo) (simp_all add: int_from_bytes_def int_to_bytes_def from_bytes_be_bytes)

lemma length_int_to_bytes: "length (int_to_bytes bo N n) = N"
  by (cases bo) (simp_all add: int_to_bytes_def length_be_bytes)

lemma uint_range: "0 \<le> n \<Longrightarrow> n < 2 ^ (8 * N) \<Longrightarrow> nat n < 256 ^ N"
proof -
  assume "0 \<le> n" "n < 2 ^ (8 * N)"
  then have "nat n < nat (2 ^ (8 * N))" by simp
  also have "nat (2 ^ (8 * N)) = 256 ^ N"
    by (simp add: power_mult nat_power_eq)
  finally show ?thesis .
qed

lemma serialize_uint:
  "0 \<le> n \<Longrightarrow> n < 2 ^ (8 * N) \<Longrightarrow>
   serialize (uint bo N) (PyInt n) = Inr (int_to_bytes bo N (nat n))"
  by (simp add: uint_def fixed_size_sedes_def)

lemma deserialize_segment_uint:
  "deserialize_segment (uint bo N) data start =
     Some (if length data < start + N then Inl (DeserializationError ''Insufficient data'')
           else Inr (PyInt (int (int_from_bytes bo (take N (drop start data)))), start + N))"
  by (simp add: uint_def fixed_size_sedes_def)

lemma uint_roundtrips:
  assumes "0 < N" "0 \<le> n" "n < 2 ^ (8 * N)"
  shows "roundtrips (SedesObj (uint bo N)) (PyInt n) (PyInt n)"
proof -
  let ?b = "int_to_bytes bo N (nat n)"
  have "?b \<noteq> []"
    using length_int_to_bytes [of bo N "nat n"] assms(1) by auto
  moreover have "deserialize_segment (uint bo N) (pre @ ?b @ post) (length pre) =
        Some (Inr (PyInt n, length pre + length ?b))" for pre post
    using assms(2) int_from_to_bytes [OF uint_range [OF assms(2,3)], of bo]
    by (simp add: deserialize_segment_uint length_int_to_bytes)
  ultimately show ?thesis
    using assms by (simp add: roundtrips_def serialize_uint)
qed

lemma deserialize_uint:
  assumes "0 \<le> n" "n < 2 ^ (8 * N)"
  shows "deserialize (uint bo N) (int_to_bytes bo N (nat n)) = Some (Inr (PyInt n))"
  using assms(1) int_from_to_bytes [OF uint_range [OF assms], of bo]
  by (simp add: uint_def fixed_size_sedes_def length_int_to_bytes)

lemma encode_SedesObj: "encode sedes_by_name infer_sedes obj (SedesObj s) = serialize s obj"
  by (simp add: encode_def)

lemma serialize_elements_uint32:
  "serialize_elements (SedesObj (uint32 bo)) [PyInt 1, PyInt 2, PyInt 3] =
     Inr (int_to_bytes bo 4 1 @ int_to_bytes bo 4 2 @ int_to_bytes bo 4 3)"
  by (simp add: serialize_uint)

lemma List_serialize_123:
  assumes "0 < L"
  shows "\<exists>bs. List_serialize L \<lparr>element_sedes = SedesObj (uint32 bo), empty = PyBool False\<rparr>
           (PyList [PyInt 1, PyInt 2, PyInt 3]) = Inr bs"
proof -
  have "(12 :: nat) < 256 ^ 1" by simp
  also have "\<dots> \<le> 256 ^ L"
    using assms by (intro power_increasing) simp_all
  finally show ?thesis
    by (simp add: List_serialize_def serialize_elements_uint32 length_int_to_bytes
          MAX_LEN_eq to_bytes_big_def del: serialize_elements.simps)
qed

lemma from_bytes_big_4:
  "from_bytes_big [a, b, c, d] = ((unat a * 256 + unat b) * 256 + unat c) * 256 + unat d"
  by (simp add: from_bytes_big_def)

lemma uint32_Big_segment:
  "deserialize_segment (uint32 Big) data i =
     Some (if length data < i + 4 then Inl (DeserializationError ''Insufficient data'')
           else Inr (PyInt (int (from_bytes_big (take 4 (drop i data)))), i + 4))"
  by (simp add: deserialize_segment_uint int_from_bytes_def)

section \<open>Properties of the tree hash\<close>

lemma chunkify_short: "bs \<noteq> [] \<Longrightarrow> length bs \<le> 32 \<Longrightarrow> chunkify bs = [pad_chunk bs]"
  by (subst chunkify.simps) simp

lemma replicate_32: "replicate 32 x = x # replicate 31 x"
proof -
  have "replicate (Suc 31) x = x # replicate 31 x"
    by (rule replicate_Suc)
  then show ?thesis by simp
qed

section \<open>The claims\<close>

text \<open>
  Claim C1. Decoding the encoding of a value gives the value back. For a list sedes
  whose element sedes round-trips every element of a collection (element \<open>v\<close> decodes
  to \<open>d\<close>), whenever \<open>encode\<close> returns a byte string, \<open>decode\<close> of that byte string with
  the same sedes returns the tuple of the \<open>d\<close>, in order. An unsigned integer sedes
  round-trips every integer in its range to the same integer, and a list sedes
  round-trips in turn, so lists of integers and lists of lists decode component by
  component to what was encoded. In particular \<open>[1, 2, 3]\<close> encoded with List(uint32)
  decodes to \<open>(1, 2, 3)\<close>, for either byte order of uint32 and any prefix length of at
  least one byte.
\<close>

theorem encode_decode_roundtrip:
  "(iter_elems v = Some elems \<and> list_all2 (roundtrips (element_sedes self)) elems ds \<and>
    encode sedes_by_name infer_sedes v (SedesObj (List_obj L self)) = Inr bs \<longrightarrow>
      decode (PyBytes bs) (SedesObj (List_obj L self)) = Some (Inr (PyTuple ds))) \<and>
   (0 < L \<and> iter_elems v = Some elems \<and> list_all2 (roundtrips (element_sedes self)) elems ds \<and>
    List_serialize L self v = Inr bs \<longrightarrow>
      roundtrips (SedesObj (List_obj L self)) v (PyTuple ds)) \<and>
   (0 < N \<and> 0 \<le> n \<and> n < 2 ^ (8 * N) \<longrightarrow>
      roundtrips (SedesObj (uint bo N)) (PyInt n) (PyInt n) \<and>
      (\<exists>b. encode sedes_by_name infer_sedes (PyInt n) (SedesObj (uint bo N)) = Inr b \<and>
           decode (PyBytes b) (SedesObj (uint bo N)) = Some (Inr (PyInt n)))) \<and>
   (0 < L \<longrightarrow>
      (\<exists>b. encode sedes_by_name infer_sedes (PyList [PyInt 1, PyInt 2, PyInt 3])
             (SedesObj (List_obj L \<lparr>element_sedes = SedesObj (uint32 bo), empty = PyBool False\<rparr>)) =
             Inr b \<and>
           decode (PyBytes b)
             (SedesObj (List_obj L \<lparr>element_sedes = SedesObj (uint32 bo), empty = PyBool False\<rparr>)) =
             Some (Inr (PyTuple [PyInt 1, PyInt 2, PyInt 3]))))"
proof (intro conjI impI)
  assume "iter_elems v = Some elems \<and> list_all2 (roundtrips (element_sedes self)) elems ds \<and>
    encode sedes_by_name infer_sedes v (SedesObj (List_obj L self)) = Inr bs"
  then show "decode (PyBytes bs) (SedesObj (List_obj L self)) = Some (Inr (PyTuple ds))"
    by (auto simp: encode_SedesObj decode_def List_obj_def intro: List_deserialize_roundtrip)
next
  assume "0 < L \<and> iter_elems v = Some elems \<and>
    list_all2 (roundtrips (element_sedes self)) elems ds \<and> List_serialize L self v = Inr bs"
  then show "roundtrips (SedesObj (List_obj L self)) v (PyTuple ds)"
    by (auto intro: List_roundtrips)
next
  assume "0 < N \<and> 0 \<le> n \<and> n < 2 ^ (8 * N)"
  then show "roundtrips (SedesObj (uint bo N)) (PyInt n) (PyInt n)"
    by (simp add: uint_roundtrips)
next
  assume "0 < N \<and> 0 \<le> n \<and> n < 2 ^ (8 * N)"
  then show "\<exists>b. encode sedes_by_name infer_sedes (PyInt n) (SedesObj (uint bo N)) = Inr b \<and>
           decode (PyBytes b) (SedesObj (uint bo N)) = Some (Inr (PyInt n))"
    by (simp add: encode_SedesObj serialize_uint decode_def deserialize_uint)
next
  let ?l = "\<lparr>element_sedes = SedesObj (uint32 bo), empty = PyBool False\<rparr>"
  assume "0 < L"
  then obtain b where b: "List_serialize L ?l (PyList [PyInt 1, PyInt 2, PyInt 3]) = Inr b"
    using List_serialize_123 by blast
  have rt: "list_all2 (roundtrips (element_sedes ?l)) [PyInt 1, PyInt 2, PyInt 3]
              [PyInt 1, PyInt 2, PyInt 3]"
    by (simp add: uint_roundtrips)
  have "List_deserialize L ?l b = Some (Inr (PyTuple [PyInt 1, PyInt 2, PyInt 3]))"
    by (rule List_deserialize_roundtrip [OF _ rt b]) simp
  with b show "\<exists>b. encode sedes_by_name infer_sedes (PyList [PyInt 1, PyInt 2, PyInt 3])
             (SedesObj (List_obj L ?l)) = Inr b \<and>
           decode (PyBytes b) (SedesObj (List_obj L ?l)) =
             Some (Inr (PyTuple [PyInt 1, PyInt 2, PyInt 3]))"
    by (simp add: encode_SedesObj decode_def List_obj_def)
qed

theorem encode_decode_roundtrip_witness:
  "encode Map.empty (\<lambda>v. Inl TypeError) (PyList [PyInt 1, PyInt 2, PyInt 3])
     (SedesObj (List_obj 4 \<lparr>element_sedes = SedesObj (uint32 Big), empty = PyBool False\<rparr>)) =
     Inr [0,0,0,12, 0,0,0,1, 0,0,0,2, 0,0,0,3] \<and>
   decode (PyBytes [0,0,0,12, 0,0,0,1, 0,0,0,2, 0,0,0,3])
     (SedesObj (List_obj 4 \<lparr>element_sedes = SedesObj (uint32 Big), empty = PyBool False\<rparr>)) =
     Some (Inr (PyTuple [PyInt 1, PyInt 2, PyInt 3]))"
proof -
  let ?l = "\<lparr>element_sedes = SedesObj (uint32 Big), empty = PyBool False\<rparr>"
  have enc: "encode Map.empty (\<lambda>v. Inl TypeError) (PyList [PyInt 1, PyInt 2, PyInt 3])
     (SedesObj (List_obj 4 ?l)) = Inr [0,0,0,12, 0,0,0,1, 0,0,0,2, 0,0,0,3]"
    by (simp add: encode_def List_obj_def List_serialize_def uint_def fixed_size_sedes_def
          int_to_bytes_def MAX_LEN_SERIALIZED_LIST_OBJECT_def to_bytes_big_def be_bytes_numeral)
  have it: "iter_elems (PyList [PyInt 1, PyInt 2, PyInt 3]) = Some [PyInt 1, PyInt 2, PyInt 3]"
    by simp
  have rt: "list_all2 (roundtrips (element_sedes ?l)) [PyInt 1, PyInt 2, PyInt 3]
              [PyInt 1, PyInt 2, PyInt 3]"
    by (simp add: uint_roundtrips)
  from encode_decode_roundtrip [of "PyList [PyInt 1, PyInt 2, PyInt 3]"
      "[PyInt 1, PyInt 2, PyInt 3]" ?l "[PyInt 1, PyInt 2, PyInt 3]" Map.empty
      "\<lambda>v. Inl TypeError" 4 "[0,0,0,12, 0,0,0,1, 0,0,0,2, 0,0,0,3]"] it rt enc
  show ?thesis by blast
qed

text \<open>
  Claim C2 states that an element which advances the index past \<open>list_end_index\<close>
  makes the list decode fail. The code does not check this. With a prefix of four
  bytes and uint32 elements (big-endian for the values shown), the data \<open>00 00 00 05 | 00 00 00 01 | 00 00 00 02\<close>
  declares five bytes of elements, so \<open>list_end_index\<close> is 9; the second element is read
  from index 8 and ends at index 12, past the end of the list, and
  \<open>deserialize_segment\<close> returns \<open>((1, 2), 9)\<close>. Through a list of lists such data passes
  a top-level \<open>decode\<close>: in the 21 bytes below the first inner list declares five bytes
  and reads eight, and the second inner list starts inside the bytes already read.
\<close>

theorem List_deserialize_segment_overshoot:
  "call_deserialize_segment (SedesObj (uint32 Big)) [0,0,0,5, 0,0,0,1, 0,0,0,2] 8 =
     Some (Inr (PyInt 2, 12)) \<and>
   List_deserialize_segment 4 \<lparr>element_sedes = SedesObj (uint32 Big), empty = PyBool False\<rparr>
     [0,0,0,5, 0,0,0,1, 0,0,0,2] 0 = Some (Inr (PyTuple [PyInt 1, PyInt 2], 9)) \<and>
   (\<exists>x y. List_deserialize_segment 4 \<lparr>element_sedes = SedesObj (uint32 bo), empty = PyBool False\<rparr>
            [0,0,0,5, 0,0,0,1, 0,0,0,2] 0 = Some (Inr (PyTuple [x, y], 9))) \<and>
   decode (PyBytes [0,0,0,17, 0,0,0,5, 0,0,0,1, 0,0,0,0, 4, 0,0,0,3])
     (SedesObj (List_obj 4
        \<lparr>element_sedes =
           SedesObj (List_obj 4 \<lparr>element_sedes = SedesObj (uint32 Big), empty = PyBool False\<rparr>),
         empty = PyBool False\<rparr>)) =
     Some (Inr (PyTuple [PyTuple [PyInt 1, PyInt 0], PyTuple [PyInt 3]]))"
proof (intro conjI)
  show "call_deserialize_segment (SedesObj (uint32 Big)) [0,0,0,5, 0,0,0,1, 0,0,0,2] 8 =
     Some (Inr (PyInt 2, 12))"
    by (simp add: uint32_Big_segment from_bytes_big_4)
next
  show "List_deserialize_segment 4 \<lparr>element_sedes = SedesObj (uint32 Big), empty = PyBool False\<rparr>
     [0,0,0,5, 0,0,0,1, 0,0,0,2] 0 = Some (Inr (PyTuple [PyInt 1, PyInt 2], 9))"
    by (simp add: List_deserialize_segment_def deserialize_elements.simps uint32_Big_segment
          from_bytes_big_4)
next
  show "\<exists>x y. List_deserialize_segment 4
          \<lparr>element_sedes = SedesObj (uint32 bo), empty = PyBool False\<rparr>
          [0,0,0,5, 0,0,0,1, 0,0,0,2] 0 = Some (Inr (PyTuple [x, y], 9))"
    by (simp add: List_deserialize_segment_def deserialize_elements.simps
          deserialize_segment_uint from_bytes_big_4)
next
  let ?inner = "\<lparr>element_sedes = SedesObj (uint32 Big), empty = PyBool False\<rparr>"
  let ?data = "[0,0,0,17, 0,0,0,5, 0,0,0,1, 0,0,0,0, 4, 0,0,0,3] :: byte list"
  have m1: "deserialize_segment (List_obj 4 ?inner) ?data 4 =
              Some (Inr (PyTuple [PyInt 1, PyInt 0], 13))"
    by (simp add: List_obj_def List_deserialize_segment_def deserialize_elements.simps
          uint32_Big_segment from_bytes_big_4)
  have m2: "deserialize_segment (List_obj 4 ?inner) ?data 13 =
              Some (Inr (PyTuple [PyInt 3], 21))"
    by (simp add: List_obj_def List_deserialize_segment_def deserialize_elements.simps
          uint32_Big_segment from_bytes_big_4)
  have "List_deserialize 4 \<lparr>element_sedes = SedesObj (List_obj 4 ?inner), empty = PyBool False\<rparr>
          ?data = Some (Inr (PyTuple [PyTuple [PyInt 1, PyInt 0], PyTuple [PyInt 3]]))"
    by (simp add: List_deserialize_def List_deserialize_segment_def deserialize_elements.simps
          m1 m2 from_bytes_big_4)
  then show "decode (PyBytes ?data)
     (SedesObj (List_obj 4 \<lparr>element_sedes = SedesObj (List_obj 4 ?inner), empty = PyBool False\<rparr>)) =
     Some (Inr (PyTuple [PyTuple [PyInt 1, PyInt 0], PyTuple [PyInt 3]]))"
    by (simp add: decode_List)
qed

text \<open>
  Claim C3. The tree-hash root of \<open>True\<close> with the Boolean sedes is the byte 0x01
  followed by 31 zero bytes, and the root of \<open>False\<close> is 32 zero bytes, whatever the hash
  function: a one-byte serialization is one padded chunk, and a single chunk is its
  own root.
\<close>

theorem hash_tree_root_Boolean:
  "hash_tree_root h encode_length (PyBool True) (Scalar Boolean) = Inr (1 # replicate 31 0) \<and>
   hash_tree_root h encode_length (PyBool False) (Scalar Boolean) = Inr (replicate 32 0)"
  by (simp add: Boolean_def fixed_size_sedes_def chunkify_short pad_chunk_def replicate_32
        del: chunkify.simps)

text \<open>
  Claim C4. Whenever \<open>List.serialize\<close> returns a byte string, the string has at least
  \<open>LIST_PREFIX_LENGTH\<close> bytes, its first \<open>LIST_PREFIX_LENGTH\<close> bytes read as a
  big-endian unsigned integer are the number of bytes that follow, and what follows is
  the concatenation of the element encodings: the prefix counts bytes, not elements.
\<close>

theorem List_serialize_length_prefix:
  assumes "List_serialize L self val = Inr bs"
  shows "L \<le> length bs \<and> from_bytes_big (take L bs) = length (drop L bs) \<and>
         (\<exists>elems. iter_elems val = Some elems \<and>
                  serialize_elements (element_sedes self) elems = Inr (drop L bs))"
  using assms by (rule List_serialize_prefix)

theorem List_serialize_length_prefix_witness:
  "List_serialize 4 \<lparr>element_sedes = SedesObj (uint32 Big), empty = PyBool False\<rparr>
     (PyList [PyInt 1, PyInt 2, PyInt 3]) =
     Inr [0,0,0,12, 0,0,0,1, 0,0,0,2, 0,0,0,3] \<and>
   from_bytes_big (take 4 [0,0,0,12, 0,0,0,1, 0,0,0,2, 0,0,0,3]) = 12 \<and>
   length (drop 4 [0,0,0,12, 0,0,0,1, 0,0,0,2, 0,0,0,3 :: byte]) = 12"
proof -
  have enc: "List_serialize 4 \<lparr>element_sedes = SedesObj (uint32 Big), empty = PyBool False\<rparr>
     (PyList [PyInt 1, PyInt 2, PyInt 3]) =
     Inr [0,0,0,12, 0,0,0,1, 0,0,0,2, 0,0,0,3]"
    by (simp add: List_serialize_def uint_def fixed_size_sedes_def int_to_bytes_def
          MAX_LEN_SERIALIZED_LIST_OBJECT_def to_bytes_big_def be_bytes_numeral)
  from List_serialize_length_prefix [OF enc] enc show ?thesis
    by (simp add: from_bytes_big_def)
qed

text \<open>
  Claim C5. \<open>List.deserialize_segment\<close> raises a DeserializationError when fewer than
  \<open>LIST_PREFIX_LENGTH\<close> bytes remain at \<open>start_index\<close>, and when the data ends before
  the end index that the length prefix declares. Hence decoding a proper prefix of a
  byte string that \<open>List.serialize\<close> returned raises a DeserializationError, through
  \<open>List.deserialize\<close> and through \<open>decode\<close>.
\<close>

theorem List_deserialize_truncated:
  "(length data < start_index + L \<longrightarrow>
      List_deserialize_segment L self data start_index =
        Some (Inl (DeserializationError ''Insufficient data: Cannot retrieve the length of list''))) \<and>
   (start_index + L \<le> length data \<and>
    length data < start_index + L + from_bytes_big (take L (drop start_index data)) \<longrightarrow>
      List_deserialize_segment L self data start_index =
        Some (Inl (DeserializationError ''Insufficient data: Cannot retrieve the whole list data''))) \<and>
   (List_serialize L self val = Inr bs \<and> k < length bs \<longrightarrow>
      (\<exists>msg. List_deserialize L self (take k bs) = Some (Inl (DeserializationError msg)) \<and>
             decode (PyBytes (take k bs)) (SedesObj (List_obj L self)) =
               Some (Inl (DeserializationError msg))))"
proof (intro conjI impI)
  assume "length data < start_index + L"
  then show "List_deserialize_segment L self data start_index =
        Some (Inl (DeserializationError ''Insufficient data: Cannot retrieve the length of list''))"
    by (simp add: List_deserialize_segment_def)
next
  assume "start_index + L \<le> length data \<and>
    length data < start_index + L + from_bytes_big (take L (drop start_index data))"
  then show "List_deserialize_segment L self data start_index =
        Some (Inl (DeserializationError ''Insufficient data: Cannot retrieve the whole list data''))"
    by (simp add: List_deserialize_segment_def)
next
  assume "List_serialize L self val = Inr bs \<and> k < length bs"
  then show "\<exists>msg. List_deserialize L self (take k bs) = Some (Inl (DeserializationError msg)) \<and>
             decode (PyBytes (take k bs)) (SedesObj (List_obj L self)) =
               Some (Inl (DeserializationError msg))"
    using List_deserialize_proper_prefix [of L self val bs k self]
    by (simp add: decode_List)
qed

theorem List_deserialize_truncated_witness:
  "List_deserialize_segment 4 \<lparr>element_sedes = SedesObj (uint32 Big), empty = PyBool False\<rparr>
     [0, 0, 0] 0 =
     Some (Inl (DeserializationError ''Insufficient data: Cannot retrieve the length of list'')) \<and>
   List_deserialize_segment 4 \<lparr>element_sedes = SedesObj (uint32 Big), empty = PyBool False\<rparr>
     [0, 0, 0, 8, 0, 0, 0, 1] 0 =
     Some (Inl (DeserializationError ''Insufficient data: Cannot retrieve the whole list data'')) \<and>
   List_serialize 4 \<lparr>element_sedes = SedesObj (uint32 Big), empty = PyBool False\<rparr>
     (PyList [PyInt 1, PyInt 2]) = Inr [0, 0, 0, 8, 0, 0, 0, 1, 0, 0, 0, 2] \<and>
   (\<exists>msg. List_deserialize 4 \<lparr>element_sedes = SedesObj (uint32 Big), empty = PyBool False\<rparr>
            (take 8 [0, 0, 0, 8, 0, 0, 0, 1, 0, 0, 0, 2]) =
            Some (Inl (DeserializationError msg)))"
proof -
  let ?l = "\<lparr>element_sedes = SedesObj (uint32 Big), empty = PyBool False\<rparr>"
  have enc: "List_serialize 4 ?l (PyList [PyInt 1, PyInt 2]) =
             Inr [0, 0, 0, 8, 0, 0, 0, 1, 0, 0, 0, 2]"
    by (simp add: List_serialize_def uint_def fixed_size_sedes_def int_to_bytes_def
          MAX_LEN_SERIALIZED_LIST_OBJECT_def to_bytes_big_def be_bytes_numeral)
  have a: "List_deserialize_segment 4 ?l [0, 0, 0] 0 =
     Some (Inl (DeserializationError ''Insufficient data: Cannot retrieve the length of list''))"
    using List_deserialize_truncated [of "[0, 0, 0]" 0 4 ?l] by simp
  have b: "List_deserialize_segment 4 ?l [0, 0, 0, 8, 0, 0, 0, 1] 0 =
     Some (Inl (DeserializationError ''Insufficient data: Cannot retrieve the whole list data''))"
    using List_deserialize_truncated [of "[0, 0, 0, 8, 0, 0, 0, 1]" 0 4 ?l]
    by (simp add: from_bytes_big_def)
  have c: "\<exists>msg. List_deserialize 4 ?l (take 8 [0, 0, 0, 8, 0, 0, 0, 1, 0, 0, 0, 2]) =
            Some (Inl (DeserializationError msg))"
    using List_deserialize_truncated [of _ _ 4 ?l "PyList [PyInt 1, PyInt 2]"
        "[0, 0, 0, 8, 0, 0, 0, 1, 0, 0, 0, 2]" 8] enc
    by auto
  from enc a b c show ?thesis by blast
qed

text \<open>
  Claim C6. \<open>List.deserialize\<close> is \<open>deserialize_segment\<close> from index 0: it raises the
  DeserializationError "Data to be deserialized is too long" when the segment ends
  before the end of the data, returns the segment's value when it ends there, and
  passes an exception on. Extra bytes after the encoding of a collection whose elements
  round-trip make it raise that error; after any byte string that \<open>List.serialize\<close>
  returned they keep it from returning a value.
\<close>

theorem List_deserialize_trailing_bytes:
  "(List_deserialize_segment L self data 0 = Some (Inr (v, end_index)) \<and> end_index \<noteq> length data \<longrightarrow>
      List_deserialize L self data =
        Some (Inl (DeserializationError ''Data to be deserialized is too long''))) \<and>
   (List_deserialize_segment L self data 0 = Some (Inr (v, length data)) \<longrightarrow>
      List_deserialize L self data = Some (Inr v)) \<and>
   (List_deserialize_segment L self data 0 = Some (Inl e) \<longrightarrow>
      List_deserialize L self data = Some (Inl e)) \<and>
   (iter_elems val = Some elems \<and> list_all2 (roundtrips (element_sedes self)) elems ds \<and>
    List_serialize L self val = Inr bs \<and> extra \<noteq> [] \<longrightarrow>
      List_deserialize L self (bs @ extra) =
        Some (Inl (DeserializationError ''Data to be deserialized is too long''))) \<and>
   (List_serialize L self val = Inr bs \<and> extra \<noteq> [] \<longrightarrow>
      (\<forall>r. List_deserialize L self (bs @ extra) \<noteq> Some (Inr r)))"
proof (intro conjI impI allI)
  assume "iter_elems val = Some elems \<and> list_all2 (roundtrips (element_sedes self)) elems ds \<and>
    List_serialize L self val = Inr bs \<and> extra \<noteq> []"
  then show "List_deserialize L self (bs @ extra) =
        Some (Inl (DeserializationError ''Data to be deserialized is too long''))"
    by (auto intro: List_deserialize_trailing)
next
  fix r
  assume "List_serialize L self val = Inr bs \<and> extra \<noteq> []"
  then show "List_deserialize L self (bs @ extra) \<noteq> Some (Inr r)"
    by (auto dest: List_deserialize_trailing_no_value)
qed (simp_all add: List_deserialize_def)

theorem List_deserialize_trailing_bytes_witness:
  "List_serialize 4 \<lparr>element_sedes = SedesObj (uint32 Big), empty = PyBool False\<rparr>
     (PyList [PyInt 1]) = Inr [0, 0, 0, 4, 0, 0, 0, 1] \<and>
   List_deserialize 4 \<lparr>element_sedes = SedesObj (uint32 Big), empty = PyBool False\<rparr>
     ([0, 0, 0, 4, 0, 0, 0, 1] @ [9]) =
     Some (Inl (DeserializationError ''Data to be deserialized is too long''))"
proof -
  let ?l = "\<lparr>element_sedes = SedesObj (uint32 Big), empty = PyBool False\<rparr>"
  have enc: "List_serialize 4 ?l (PyList [PyInt 1]) = Inr [0, 0, 0, 4, 0, 0, 0, 1]"
    by (simp add: List_serialize_def uint_def fixed_size_sedes_def int_to_bytes_def
          MAX_LEN_SERIALIZED_LIST_OBJECT_def to_bytes_big_def be_bytes_numeral)
  have it: "iter_elems (PyList [PyInt 1]) = Some [PyInt 1]"
    by simp
  have rt: "list_all2 (roundtrips (element_sedes ?l)) [PyInt 1] [PyInt 1]"
    by (simp add: uint_roundtrips)
  have ne: "[9 :: byte] \<noteq> []"
    by simp
  from List_deserialize_trailing_bytes [of 4 ?l _ _ _ _ "PyList [PyInt 1]" "[PyInt 1]"
      "[PyInt 1]" "[0, 0, 0, 4, 0, 0, 0, 1]" "[9]"] it rt enc ne
  show ?thesis by blast
qed

text \<open>
  Claim C7. When the value is a collection that the sedes accepts and every element
  serializes, \<open>List.serialize\<close> raises a SerializationError if the concatenated element
  encodings have \<open>MAX_LEN_SERIALIZED_LIST_OBJECT\<close> bytes or more, and otherwise returns
  the length prefix followed by all of the concatenated bytes, none of them dropped.
\<close>

theorem List_serialize_size_limit:
  assumes "iter_elems val = Some elems"
      and "\<not> (truthy (empty self) \<and> elems \<noteq> [])"
      and "serialize_elements (element_sedes self) elems = Inr s"
  shows "(MAX_LEN_SERIALIZED_LIST_OBJECT L \<le> length s \<longrightarrow>
            List_serialize L self val =
              Inl (SerializationError
                (''List too long to fit into '' @ str_nat L @ '' bytes after serialization''))) \<and>
         (length s < MAX_LEN_SERIALIZED_LIST_OBJECT L \<longrightarrow>
            (\<exists>serialized_len. to_bytes_big (length s) L = Inr serialized_len \<and>
               List_serialize L self val = Inr (serialized_len @ s)))"
  using assms
  by (auto simp: List_serialize_def MAX_LEN_eq to_bytes_big_def)

theorem List_serialize_size_limit_witness:
  "List_serialize 1 \<lparr>element_sedes = SedesObj (uint Big 256), empty = PyBool False\<rparr>
     (PyList [PyInt 7]) =
     Inl (SerializationError ''List too long to fit into 1 bytes after serialization'') \<and>
   List_serialize 1 \<lparr>element_sedes = SedesObj (uint Big 255), empty = PyBool False\<rparr>
     (PyList [PyInt 7]) = Inr (255 # be_bytes 255 7)"
proof -
  let ?big = "\<lparr>element_sedes = SedesObj (uint Big 256), empty = PyBool False\<rparr>"
  let ?ok = "\<lparr>element_sedes = SedesObj (uint Big 255), empty = PyBool False\<rparr>"
  have it: "iter_elems (PyList [PyInt 7]) = Some [PyInt 7]" by simp
  have s1: "serialize_elements (element_sedes ?big) [PyInt 7] = Inr (be_bytes 256 7)"
    by (simp add: uint_def fixed_size_sedes_def int_to_bytes_def)
  have s2: "serialize_elements (element_sedes ?ok) [PyInt 7] = Inr (be_bytes 255 7)"
    by (simp add: uint_def fixed_size_sedes_def int_to_bytes_def)
  have p: "to_bytes_big 255 1 = Inr [255]"
    by (simp add: to_bytes_big_def)
  have "List_serialize 1 ?big (PyList [PyInt 7]) =
     Inl (SerializationError ''List too long to fit into 1 bytes after serialization'')"
    using List_serialize_size_limit [OF it _ s1, of 1]
    by (simp add: MAX_LEN_eq length_be_bytes)
  moreover have "List_serialize 1 ?ok (PyList [PyInt 7]) = Inr (255 # be_bytes 255 7)"
    using List_serialize_size_limit [OF it _ s2, of 1] p
    by (simp add: MAX_LEN_eq length_be_bytes)
  ultimately show ?thesis by simp
qed

text \<open>
  Claim C8. The sedes constructed by \<open>List(empty=True)\<close> serializes every empty
  collection to \<open>LIST_PREFIX_LENGTH\<close> zero bytes, raises a ValueError for every
  non-empty collection, and deserializes the all-zero byte string to the empty tuple.
\<close>

theorem empty_List_sentinel:
  assumes "List_init (Val PyNone) (PyBool True) = Inr self"
  shows "(\<forall>val. iter_elems val = Some [] \<longrightarrow> List_serialize L self val = Inr (replicate L 0)) \<and>
         (\<forall>val elems. iter_elems val = Some elems \<and> elems \<noteq> [] \<longrightarrow>
            List_serialize L self val =
              Inl (ValueError ''Empty List Sedes cannot serialize non-empty Iterables'')) \<and>
         List_deserialize L self (replicate L 0) = Some (Inr (PyTuple []))"
proof -
  from assms have self: "self = \<lparr>element_sedes = Val PyNone, empty = PyBool True\<rparr>"
    by (simp add: List_init_def)
  have z: "from_bytes_big (replicate L 0) = 0"
    using from_bytes_be_bytes [of 0 L] by (simp add: be_bytes_zero)
  have "List_deserialize L self (replicate L 0) = Some (Inr (PyTuple []))"
    by (simp add: List_deserialize_def List_deserialize_segment_def z deserialize_elements_stop)
  then show ?thesis
    by (auto simp: self List_serialize_def MAX_LEN_eq to_bytes_big_def be_bytes_zero)
qed

theorem empty_List_sentinel_witness:
  "List_init (Val PyNone) (PyBool True) = Inr \<lparr>element_sedes = Val PyNone, empty = PyBool True\<rparr> \<and>
   List_serialize 4 \<lparr>element_sedes = Val PyNone, empty = PyBool True\<rparr> (PyList []) = Inr [0, 0, 0, 0] \<and>
   List_serialize 4 \<lparr>element_sedes = Val PyNone, empty = PyBool True\<rparr> (PyList [PyInt 1]) =
     Inl (ValueError ''Empty List Sedes cannot serialize non-empty Iterables'') \<and>
   List_deserialize 4 \<lparr>element_sedes = Val PyNone, empty = PyBool True\<rparr> [0, 0, 0, 0] =
     Some (Inr (PyTuple []))"
proof -
  have i: "List_init (Val PyNone) (PyBool True) =
           Inr \<lparr>element_sedes = Val PyNone, empty = PyBool True\<rparr>"
    by (simp add: List_init_def)
  have r: "replicate 4 (0 :: byte) = [0, 0, 0, 0]"
    by (simp add: eval_nat_numeral)
  from empty_List_sentinel [OF i, of 4] have
    "List_serialize 4 \<lparr>element_sedes = Val PyNone, empty = PyBool True\<rparr> (PyList []) =
       Inr (replicate 4 0)"
    "List_serialize 4 \<lparr>element_sedes = Val PyNone, empty = PyBool True\<rparr> (PyList [PyInt 1]) =
       Inl (ValueError ''Empty List Sedes cannot serialize non-empty Iterables'')"
    "List_deserialize 4 \<lparr>element_sedes = Val PyNone, empty = PyBool True\<rparr> (replicate 4 0) =
       Some (Inr (PyTuple []))"
    by simp_all
  with i show ?thesis by (simp add: r)
qed

text \<open>
  Claim C9. \<open>List(element_sedes, empty=True)\<close> with a sedes object and \<open>List()\<close> with
  neither raise a ValueError in the constructor; a sedes object alone and \<open>empty=True\<close>
  alone construct the sedes. In general the constructor raises a ValueError exactly
  when the two arguments are both truthy or both falsy (\<open>None\<close> and \<open>False\<close>, the
  defaults, are falsy; a sedes object and \<open>True\<close> are truthy), and a constructed sedes
  holds its two arguments, exactly one of which is truthy.
\<close>

theorem List_init_exactly_one:
  "List_init (SedesObj s) (PyBool True) =
     Inl (ValueError ''Either one of Element Sedes or Empty has to be specified'') \<and>
   List_init (Val PyNone) (PyBool False) =
     Inl (ValueError ''Either Element Sedes or Empty has to be specified'') \<and>
   List_init (SedesObj s) (PyBool False) =
     Inr \<lparr>element_sedes = SedesObj s, empty = PyBool False\<rparr> \<and>
   List_init (Val PyNone) (PyBool True) =
     Inr \<lparr>element_sedes = Val PyNone, empty = PyBool True\<rparr> \<and>
   ((\<exists>msg. List_init es em = Inl (ValueError msg)) \<longleftrightarrow> truthy_obj es = truthy em) \<and>
   (\<forall>self. List_init es em = Inr self \<longrightarrow>
      element_sedes self = es \<and> empty self = em \<and>
      truthy_obj (element_sedes self) \<noteq> truthy (empty self))"
  by (auto simp: List_init_def)

theorem List_init_exactly_one_witness:
  "List_init (SedesObj (uint32 Big)) (PyBool False) =
     Inr \<lparr>element_sedes = SedesObj (uint32 Big), empty = PyBool False\<rparr> \<and>
   truthy_obj (element_sedes \<lparr>element_sedes = SedesObj (uint32 Big), empty = PyBool False\<rparr>) \<noteq>
   truthy (empty \<lparr>element_sedes = SedesObj (uint32 Big), empty = PyBool False\<rparr>)"
  using List_init_exactly_one [of "uint32 Big" "SedesObj (uint32 Big)" "PyBool False"]
  by simp

text \<open>
  Claim C10. \<open>encode\<close> tests its \<open>sedes\<close> argument for truthiness: for every falsy
  value, such as \<open>""\<close> and \<open>0\<close>, the result is that of type inference on the object,
  as for \<open>None\<close>, whatever the registry holds; the validity check is not reached, so an
  InvalidSedesError can only come from the inferred sedes. The truthy value \<open>1\<close>, which
  is no sedes, does raise InvalidSedesError.
\<close>

theorem encode_falsy_sedes:
  "(\<not> truthy v \<longrightarrow>
      encode sedes_by_name infer_sedes obj (Val v) =
        (case infer_sedes obj of Inl e \<Rightarrow> Inl e | Inr s \<Rightarrow> serialize s obj)) \<and>
   encode sedes_by_name infer_sedes obj (Val (PyStr '''')) =
     encode sedes_by_name infer_sedes obj (Val PyNone) \<and>
   encode sedes_by_name infer_sedes obj (Val (PyInt 0)) =
     encode sedes_by_name infer_sedes obj (Val PyNone) \<and>
   (\<not> truthy v \<and>
    (\<forall>msg. (case infer_sedes obj of Inl e \<Rightarrow> Inl e | Inr s \<Rightarrow> serialize s obj) \<noteq>
             Inl (InvalidSedesError msg)) \<longrightarrow>
      (\<forall>msg. encode sedes_by_name infer_sedes obj (Val v) \<noteq> Inl (InvalidSedesError msg))) \<and>
   encode sedes_by_name infer_sedes obj (Val (PyInt 1)) =
     Inl (InvalidSedesError ''Invalid sedes object'')"
  by (auto simp: encode_def split: sum.splits)

theorem encode_falsy_sedes_witness:
  "\<not> truthy (PyInt 0) \<and>
   encode Map.empty (\<lambda>v. Inr Boolean) (PyBool True) (Val (PyInt 0)) = Inr [1] \<and>
   encode Map.empty (\<lambda>v. Inr Boolean) (PyBool True) (Val (PyStr '''')) = Inr [1] \<and>
   encode Map.empty (\<lambda>v. Inr Boolean) (PyBool True) (Val (PyInt 1)) =
     Inl (InvalidSedesError ''Invalid sedes object'')"
proof -
  have s: "serialize Boolean (PyBool True) = Inr [1]"
    by (simp add: Boolean_def fixed_size_sedes_def)
  from encode_falsy_sedes [of "PyInt 0" Map.empty "\<lambda>v. Inr Boolean" "PyBool True"] s
  have a: "encode Map.empty (\<lambda>v. Inr Boolean) (PyBool True) (Val (PyInt 0)) = Inr [1]"
    by simp
  from encode_falsy_sedes [of "PyStr ''''" Map.empty "\<lambda>v. Inr Boolean" "PyBool True"] s
  have b: "encode Map.empty (\<lambda>v. Inr Boolean) (PyBool True) (Val (PyStr '''')) = Inr [1]"
    by simp
  from encode_falsy_sedes [of "PyInt 0" Map.empty "\<lambda>v. Inr Boolean" "PyBool True"]
  have c: "encode Map.empty (\<lambda>v. Inr Boolean) (PyBool True) (Val (PyInt 1)) =
     Inl (InvalidSedesError ''Invalid sedes object'')"
    by simp
  from a b c show ?thesis by simp
qed

end
